theory Spec2Isabelle
  imports Complex_Main "HOL-Library.Char_ord" "HOL-Library.List_Lexorder"
begin

section \<open>The expense forecaster of expense\_predictor\_model.py\<close>

text \<open>
  The class \<open>ExpensePredictor\<close> wraps a random-forest regressor, a label encoder for the
  category names and a list of feature-column names. Its methods mutate the object; here
  every method takes the object and returns the object it leaves behind. The regressor
  and the helpers of the learning library are not part of the repository: they are taken as
  a parameter, a record of functions, so that every statement below holds for whatever the
  library computes. Amounts are Python floats, modelled as reals; a missing cell of a data
  frame (NaN) is \<open>None\<close>.
\<close>

subsection \<open>Calendar dates and the accessors of a timestamp column\<close>

text \<open>
  The \<open>date\<close> column after \<open>pd.to_datetime\<close>: the date strings of the input are taken
  as parsed calendar dates. The accessors count days in the proleptic Gregorian calendar.
\<close>

record date =
  year :: int
  month :: int
  day :: int

definition is_leap :: "int \<Rightarrow> bool" where
  "is_leap y = (if y mod 100 = 0 then y mod 400 = 0 else y mod 4 = 0)"

definition days_before_year :: "int \<Rightarrow> int" where
  "days_before_year y = (y - 1) * 365 + (y - 1) div 4 - (y - 1) div 100 + (y - 1) div 400"

definition days_before_month :: "int \<Rightarrow> int \<Rightarrow> int" where
  "days_before_month y m =
     sum_list (take (nat (m - 1))
       [31, if is_leap y then 29 else 28, 31, 30, 31, 30, 31, 31, 30, 31, 30, 31])"

definition toordinal :: "date \<Rightarrow> int" where
  "toordinal d = days_before_year (year d) + days_before_month (year d) (month d) + day d"

text \<open>\<open>dt.weekday\<close>: Monday is 0, Sunday is 6.\<close>

definition weekday :: "date \<Rightarrow> int" where
  "weekday d = (toordinal d + 6) mod 7"

text \<open>\<open>dt.quarter\<close>.\<close>

definition quarter :: "date \<Rightarrow> int" where
  "quarter d = (month d - 1) div 3 + 1"

subsection \<open>Input records and data frames\<close>

text \<open>
  One input record. The application supplies \<open>date\<close> and \<open>category\<close> with every record;
  the numeric keys and \<open>transaction_type\<close> may be absent. A data frame is the list of its
  rows; a column such as \<open>amount\<close> exists in the frame when some row carries the key.
\<close>

record txn =
  date :: date
  category :: string
  amount :: "real option"
  total_expense :: "real option"
  total_income :: "real option"
  transaction_type :: "string option"

text \<open>\<open>df[col] > 0\<close> on one cell: a missing value compares false.\<close>

fun positive :: "real option \<Rightarrow> bool" where
  "positive None = False"
| "positive (Some v) = (0 < v)"

definition has_total_expense :: "txn list \<Rightarrow> bool" where
  "has_total_expense df = list_ex (\<lambda>r. total_expense r \<noteq> None) df"

definition has_total_income :: "txn list \<Rightarrow> bool" where
  "has_total_income df = list_ex (\<lambda>r. total_income r \<noteq> None) df"

definition has_amount :: "txn list \<Rightarrow> bool" where
  "has_amount df = list_ex (\<lambda>r. amount r \<noteq> None) df"

text \<open>
  The rows \<open>expense_data[['date', 'category', 'amount', 'transaction_type']]\<close> after
  \<open>amount\<close> and \<open>transaction_type\<close> have been assigned, and the same for the income side.
\<close>

definition expense_row :: "txn \<Rightarrow> txn" where
  "expense_row r =
     \<lparr>date = date r, category = category r, amount = total_expense r,
      total_expense = None, total_income = None, transaction_type = Some ''expense''\<rparr>"

definition income_row :: "txn \<Rightarrow> txn" where
  "income_row r =
     \<lparr>date = date r, category = category r, amount = total_income r,
      total_expense = None, total_income = None, transaction_type = Some ''income''\<rparr>"

text \<open>
  Lines 59 to 99 of \<open>prepare_data\<close>: the frame that reaches \<open>create_features\<close>, or \<open>None\<close>
  where the method returns \<open>(None, None)\<close>.
\<close>

definition normalized :: "txn list \<Rightarrow> txn list option" where
  "normalized data =
     (if data = [] then None
      else
        let df1 =
          (if has_total_expense data \<and> has_total_income data then
             let expense_data = filter (\<lambda>r. positive (total_expense r)) data;
                 income_data = filter (\<lambda>r. positive (total_income r)) data;
                 all_data =
                   (if expense_data \<noteq> [] then [map expense_row expense_data] else []) @
                   (if income_data \<noteq> [] then [map income_row income_data] else [])
             in if all_data \<noteq> [] then Some (concat all_data) else None
           else Some data)
        in case df1 of
             None \<Rightarrow> None
           | Some df \<Rightarrow>
               if \<not> has_amount df then None
               else
                 let df' = filter (\<lambda>r. positive (amount r)) df
                 in if df' = [] then None else Some df')"

subsection \<open>The forecaster object and the learning library\<close>

record 'est ExpensePredictor =
  model :: 'est
  category_encoder :: "string list option"
  feature_columns :: "string list"
  is_fitted :: bool

text \<open>
  The library. \<open>new_estimator\<close> is the regressor as constructed, with its fixed
  hyperparameters. \<open>fit\<close> either returns the fitted estimator or raises; a raising call
  leaves the estimator object in some state of its own choosing, returned with the message.
  \<open>predict\<close> returns one value per row or raises.
\<close>

record 'est sklearn =
  new_estimator :: 'est
  train_test_split ::
    "real list list \<Rightarrow> real list \<Rightarrow> real list list \<times> real list list \<times> real list \<times> real list"
  fit :: "'est \<Rightarrow> real list list \<Rightarrow> real list \<Rightarrow> (string \<times> 'est) + 'est"
  predict :: "'est \<Rightarrow> real list list \<Rightarrow> string + real list"
  feature_importances :: "'est \<Rightarrow> real list"
  mean_absolute_error :: "real list \<Rightarrow> real list \<Rightarrow> real"
  r2_score :: "real list \<Rightarrow> real list \<Rightarrow> real"

datatype error = KeyError | AttributeError

definition init :: "'est sklearn \<Rightarrow> 'est ExpensePredictor" where
  "init L =
     \<lparr>model = new_estimator L,
      category_encoder = None,
      feature_columns =
        [''month'', ''weekday'', ''is_weekend'', ''quarter'', ''day_of_month'',
         ''is_month_start'', ''is_month_end'', ''category_encoded''],
      is_fitted = False\<rparr>"

subsection \<open>Feature construction\<close>

text \<open>The label encoder: \<open>classes_\<close> is the sorted list of the distinct labels.\<close>

definition fit_classes :: "string list \<Rightarrow> string list" where
  "fit_classes cats = sort (remdups cats)"

fun index_of :: "string list \<Rightarrow> string \<Rightarrow> int" where
  "index_of [] x = 0"
| "index_of (c # cs) x = (if c = x then 0 else 1 + index_of cs x)"

definition bool_int :: "bool \<Rightarrow> real" where
  "bool_int b = (if b then 1 else 0)"

text \<open>
  One row of the frame \<open>create_features\<close> returns, as a map from the numeric column names
  to the cells: the amount and the eight derived columns.
\<close>

definition feature_row :: "date \<Rightarrow> real option \<Rightarrow> int \<Rightarrow> (string \<rightharpoonup> real)" where
  "feature_row d a code =
     (Map.empty(''amount'' := a))
       (''month'' \<mapsto> real_of_int (month d),
        ''weekday'' \<mapsto> real_of_int (weekday d),
        ''is_weekend'' \<mapsto> bool_int (weekday d = 5 \<or> weekday d = 6),
        ''quarter'' \<mapsto> real_of_int (quarter d),
        ''day_of_month'' \<mapsto> real_of_int (day d),
        ''is_month_start'' \<mapsto> bool_int (day d \<le> 7),
        ''is_month_end'' \<mapsto> bool_int (24 \<le> day d),
        ''category_encoded'' \<mapsto> real_of_int code)"

text \<open>
  \<open>create_features\<close>. An object that is not fitted fits the encoder on the categories of
  the frame; a fitted one leaves the encoder alone and encodes an unknown category as -1.
  Reading \<open>classes_\<close> of an encoder that was never fitted raises.
\<close>

definition create_features ::
  "'est ExpensePredictor \<Rightarrow> txn list \<Rightarrow> error + ((string \<rightharpoonup> real) list \<times> 'est ExpensePredictor)" where
  "create_features self df =
     (if \<not> is_fitted self then
        let classes = fit_classes (map category df)
        in Inr (map (\<lambda>r. feature_row (date r) (amount r) (index_of classes (category r))) df,
                self\<lparr>category_encoder := Some classes\<rparr>)
      else
        case category_encoder self of
          None \<Rightarrow> Inl AttributeError
        | Some classes \<Rightarrow>
            Inr (map (\<lambda>r. feature_row (date r) (amount r)
                        (if category r \<in> set classes then index_of classes (category r) else - 1)) df,
                 self))"

text \<open>
  \<open>df['amount']\<close> as the target vector. The rows that reach it have passed the filter
  \<open>df['amount'] > 0\<close>, so none of them has a missing amount.
\<close>

definition amount_of :: "txn \<Rightarrow> real" where
  "amount_of r = (case amount r of None \<Rightarrow> 0 | Some v \<Rightarrow> v)"

text \<open>\<open>df[self.feature_columns]\<close> on one row; \<open>None\<close> stands for the KeyError.\<close>

definition select_columns :: "string list \<Rightarrow> (string \<rightharpoonup> real) \<Rightarrow> real list option" where
  "select_columns cols row = those (map row cols)"

definition prepare_data ::
  "'est ExpensePredictor \<Rightarrow> txn list \<Rightarrow>
   (error + (real list list \<times> real list) option) \<times> 'est ExpensePredictor" where
  "prepare_data self data =
     (case normalized data of
        None \<Rightarrow> (Inr None, self)
      | Some df \<Rightarrow>
          (case create_features self df of
             Inl e \<Rightarrow> (Inl e, self)
           | Inr (rows, self') \<Rightarrow>
               (case those (map (select_columns (feature_columns self')) rows) of
                  None \<Rightarrow> (Inl KeyError, self')
                | Some X \<Rightarrow> (Inr (Some (X, map amount_of df)), self'))))"

subsection \<open>Training\<close>

text \<open>
  The status strings of the methods: \<open>No valid data for training\<close>,
  \<open>Insufficient data for training (minimum 10 samples required)\<close>,
  \<open>Model trained successfully. MAE: ..., R2: ...\<close> with the two metrics,
  \<open>Training failed: ...\<close> with the message of the fault, \<open>Model not trained yet\<close>,
  \<open>Model saved to ...\<close> with the path, \<open>Failed to save model: ...\<close>,
  \<open>Model file not found\<close>, \<open>Model loaded successfully\<close> and \<open>Failed to load model: ...\<close>.
\<close>

datatype message =
    No_valid_data
  | Insufficient_data
  | Model_trained real real
  | Training_failed string
  | Model_not_trained
  | Model_saved string
  | Failed_to_save string
  | Model_file_not_found
  | Model_loaded
  | Failed_to_load string

text \<open>
  \<open>train\<close>. \<open>prepare_data\<close> runs outside the \<open>try\<close>, so its fault leaves the method as an
  exception (\<open>Inl\<close>); everything from the split on is inside the \<open>try\<close> and ends in a status.
\<close>

definition train ::
  "'est sklearn \<Rightarrow> 'est ExpensePredictor \<Rightarrow> txn list \<Rightarrow>
   (error + bool \<times> message) \<times> 'est ExpensePredictor" where
  "train L self data =
     (case prepare_data self data of
        (Inl e, self1) \<Rightarrow> (Inl e, self1)
      | (Inr None, self1) \<Rightarrow> (Inr (False, No_valid_data), self1)
      | (Inr (Some (X, y)), self1) \<Rightarrow>
          if length X < 10 then (Inr (False, Insufficient_data), self1)
          else
            (case train_test_split L X y of
               (X_train, X_test, y_train, y_test) \<Rightarrow>
                 (case fit L (model self1) X_train y_train of
                    Inl (e, m) \<Rightarrow> (Inr (False, Training_failed e), self1\<lparr>model := m\<rparr>)
                  | Inr m \<Rightarrow>
                      let self2 = self1\<lparr>model := m, is_fitted := True\<rparr>
                      in (case predict L m X_test of
                            Inl e \<Rightarrow> (Inr (False, Training_failed e), self2)
                          | Inr y_pred \<Rightarrow>
                              (Inr (True, Model_trained (mean_absolute_error L y_test y_pred)
                                                       (r2_score L y_test y_pred)),
                               self2)))))"

subsection \<open>Prediction\<close>

definition np_mean :: "real list \<Rightarrow> real" where
  "np_mean xs = sum_list xs / real (length xs)"

text \<open>
  \<open>predict_category\<close>. The method consults the clock in two places: in line 146, only
  when no target month is given, for the default target month (the reading \<open>now_month\<close>),
  and in line 155 for the date of the frame (the reading \<open>now\<close>). Every fault inside the
  \<open>try\<close> ends in \<open>(0, 0)\<close>.
\<close>

definition predict_category ::
  "'est sklearn \<Rightarrow> 'est ExpensePredictor \<Rightarrow> date \<Rightarrow> date \<Rightarrow> string \<Rightarrow> string \<Rightarrow>
   int option \<Rightarrow> real \<times> real" where
  "predict_category L self now_month now cat ttype target_month =
     (if \<not> is_fitted self then (0, 0)
      else
        let target = (case target_month of None \<Rightarrow> month now_month | Some m \<Rightarrow> m)
        in case category_encoder self of
             None \<Rightarrow> (0, 0)
           | Some classes \<Rightarrow>
               if cat \<notin> set classes then (0, 0)
               else
                 (case create_features self
                         [\<lparr>date = now, category = cat, amount = Some 100,
                           total_expense = None, total_income = None,
                           transaction_type = Some ttype\<rparr>] of
                    Inr ([row], _) \<Rightarrow>
                      (case select_columns (feature_columns self)
                              (row(''month'' \<mapsto> real_of_int target)) of
                         None \<Rightarrow> (0, 0)
                       | Some x \<Rightarrow>
                           (case predict L (model self) [x] of
                              Inr (prediction # _) \<Rightarrow>
                                (max 0 prediction,
                                 min 95 (max 50
                                   (np_mean (feature_importances L (model self)) * 100)))
                            | _ \<Rightarrow> (0, 0)))
                  | _ \<Rightarrow> (0, 0)))"

text \<open>
  One entry of the list \<open>predict_next_month\<close> returns. The keys \<open>category\<close> and
  \<open>transaction_type\<close> of the dictionary are the fields \<open>p_category\<close> and
  \<open>p_transaction_type\<close>.
\<close>

record prediction =
  p_category :: string
  predicted_expense :: real
  predicted_income :: real
  expense_confidence :: real
  income_confidence :: real
  p_transaction_type :: string

text \<open>
  \<open>predict_next_month\<close> consults the clock afresh at every use. Line 183 reads it in the
  condition of the conditional expression and, when the condition holds, once more in the
  value; each call of \<open>predict_category\<close> that gets as far as building its frame reads it
  again. The readings are the argument \<open>clock\<close>: \<open>clock 0\<close> and \<open>clock 1\<close> are the two
  readings of line 183, and the two calls for the \<open>i\<close>-th category have the readings
  \<open>clock (2 + 2 * i)\<close> and \<open>clock (3 + 2 * i)\<close>. A reading whose place is not reached is
  not used.
\<close>

type_synonym clock = "nat \<Rightarrow> date"

text \<open>
  Line 183, \<open>datetime.now().month + 1 if datetime.now().month < 12 else 1\<close>: \<open>now_cond\<close>
  is the reading in the condition, evaluated first, and \<open>now_value\<close> the one in the value.
\<close>

definition next_month :: "date \<Rightarrow> date \<Rightarrow> int" where
  "next_month now_cond now_value = (if month now_cond < 12 then month now_value + 1 else 1)"

text \<open>
  The body of the loop over the categories: the entries it appends for one category, with
  the target month computed before the loop and the clock readings of the two calls. A
  call with a target month does not consult the clock for a default month, so the reading
  in that place is immaterial; the reading of the frame stands there.
\<close>

definition predict_one ::
  "'est sklearn \<Rightarrow> 'est ExpensePredictor \<Rightarrow> date \<Rightarrow> date \<Rightarrow> int \<Rightarrow> string \<Rightarrow>
   prediction list" where
  "predict_one L self now_expense now_income target cat =
     (case predict_category L self now_expense now_expense cat ''expense'' (Some target) of
        (expense_pred, expense_conf) \<Rightarrow>
          (case predict_category L self now_income now_income cat ''income'' (Some target) of
             (income_pred, income_conf) \<Rightarrow>
               if 0 < expense_pred \<or> 0 < income_pred then
                 [\<lparr>p_category = cat,
                   predicted_expense = expense_pred,
                   predicted_income = income_pred,
                   expense_confidence = expense_conf,
                   income_confidence = income_conf,
                   p_transaction_type =
                     (if income_pred < expense_pred then ''expense'' else ''income'')\<rparr>]
               else []))"

fun predict_loop ::
  "'est sklearn \<Rightarrow> 'est ExpensePredictor \<Rightarrow> clock \<Rightarrow> int \<Rightarrow> string list \<Rightarrow>
   prediction list \<Rightarrow> prediction list" where
  "predict_loop L self clock target [] predictions = predictions"
| "predict_loop L self clock target (cat # categories) predictions =
     predict_loop L self (\<lambda>n. clock (n + 2)) target categories
       (predictions @ predict_one L self (clock 0) (clock 1) target cat)"

definition predict_next_month ::
  "'est sklearn \<Rightarrow> 'est ExpensePredictor \<Rightarrow> clock \<Rightarrow> string list \<Rightarrow> prediction list" where
  "predict_next_month L self clock categories =
     (if \<not> is_fitted self then []
      else predict_loop L self (\<lambda>n. clock (n + 2)) (next_month (clock 0) (clock 1))
             categories [])"

subsection \<open>Persistence\<close>

text \<open>The dictionary \<open>model_data\<close> that is written to the file, with its four keys.\<close>

record 'est model_data =
  model_entry :: 'est
  category_encoder_entry :: "string list option"
  feature_columns_entry :: "string list"
  is_fitted_entry :: bool

text \<open>
  The operating system and the serialisation library, over a file system of type \<open>'fs\<close>.
  A call that raises returns its message and the file system it leaves behind.
\<close>

record ('fs, 'est) joblib_os =
  dirname :: "string \<Rightarrow> string"
  makedirs :: "'fs \<Rightarrow> string \<Rightarrow> (string \<times> 'fs) + 'fs"
  dump :: "'fs \<Rightarrow> 'est model_data \<Rightarrow> string \<Rightarrow> (string \<times> 'fs) + 'fs"
  path_exists :: "'fs \<Rightarrow> string \<Rightarrow> bool"
  load :: "'fs \<Rightarrow> string \<Rightarrow> string + 'est model_data"

definition save_model ::
  "('fs, 'est) joblib_os \<Rightarrow> 'fs \<Rightarrow> 'est ExpensePredictor \<Rightarrow> string \<Rightarrow> (bool \<times> message) \<times> 'fs" where
  "save_model OS fs self filepath =
     (if \<not> is_fitted self then ((False, Model_not_trained), fs)
      else
        case makedirs OS fs (dirname OS filepath) of
          Inl (e, fs1) \<Rightarrow> ((False, Failed_to_save e), fs1)
        | Inr fs1 \<Rightarrow>
            (case dump OS fs1
                    \<lparr>model_entry = model self,
                     category_encoder_entry = category_encoder self,
                     feature_columns_entry = feature_columns self,
                     is_fitted_entry = is_fitted self\<rparr> filepath of
               Inl (e, fs2) \<Rightarrow> ((False, Failed_to_save e), fs2)
             | Inr fs2 \<Rightarrow> ((True, Model_saved filepath), fs2)))"

definition load_model ::
  "('fs, 'est) joblib_os \<Rightarrow> 'fs \<Rightarrow> 'est ExpensePredictor \<Rightarrow> string \<Rightarrow>
   (bool \<times> message) \<times> 'est ExpensePredictor" where
  "load_model OS fs self filepath =
     (if \<not> path_exists OS fs filepath then ((False, Model_file_not_found), self)
      else
        case load OS fs filepath of
          Inl e \<Rightarrow> ((False, Failed_to_load e), self)
        | Inr model_data \<Rightarrow>
            ((True, Model_loaded),
             self\<lparr>model := model_entry model_data,
                  category_encoder := category_encoder_entry model_data,
                  feature_columns := feature_columns_entry model_data,
                  is_fitted := is_fitted_entry model_data\<rparr>))"

text \<open>
  The number of rows that remain after preparation, and the row of the feature matrix
  that the eight fixed feature columns select for a date and a category code.
\<close>

definition usable_rows :: "txn list \<Rightarrow> nat" where
  "usable_rows data = (case normalized data of None \<Rightarrow> 0 | Some df \<Rightarrow> length df)"

definition feature_vector :: "date \<Rightarrow> int \<Rightarrow> real list" where
  "feature_vector d code =
     [real_of_int (month d), real_of_int (weekday d), bool_int (weekday d = 5 \<or> weekday d = 6),
      real_of_int (quarter d), real_of_int (day d), bool_int (day d \<le> 7),
      bool_int (24 \<le> day d), real_of_int code]"

text \<open>The category vocabulary: the classes of the encoder, none before it is fitted.\<close>

definition vocabulary :: "'est ExpensePredictor \<Rightarrow> string set" where
  "vocabulary self = (case category_encoder self of None \<Rightarrow> {} | Some classes \<Rightarrow> set classes)"

subsection \<open>A small library and file system for evaluating the model\<close>

text \<open>
  An estimator that predicts the mean of the targets it was fitted on, an unshuffled
  split that holds out the first fifth of the rows, and a file system that is a list of
  path and content pairs, in which the directory with the empty name cannot be created.
\<close>

definition mean_lib :: "real option sklearn" where
  "mean_lib =
     \<lparr>new_estimator = None,
      train_test_split =
        (\<lambda>X y. (drop (length X div 5) X, take (length X div 5) X,
                drop (length X div 5) y, take (length X div 5) y)),
      fit = (\<lambda>m X y. Inr (Some (np_mean y))),
      predict =
        (\<lambda>m X. case m of None \<Rightarrow> Inl ''not fitted'' | Some v \<Rightarrow> Inr (map (\<lambda>_. v) X)),
      feature_importances = (\<lambda>m. [1 / 8, 1 / 8, 1 / 8, 1 / 8, 1 / 8, 1 / 8, 1 / 8, 1 / 8]),
      mean_absolute_error = (\<lambda>y p. np_mean (map2 (\<lambda>a b. \<bar>a - b\<bar>) y p)),
      r2_score = (\<lambda>y p. 0)\<rparr>"

text \<open>The same library with a \<open>fit\<close> that raises and leaves the estimator as it found it.\<close>

definition faulty_lib :: "real option sklearn" where
  "faulty_lib = mean_lib\<lparr>fit := (\<lambda>m X y. Inl (''fit raised'', m))\<rparr>"

text \<open>\<open>os.path.dirname\<close> on a path with \<open>/\<close> as the separator.\<close>

definition posix_dirname :: "string \<Rightarrow> string" where
  "posix_dirname p =
     (let head = rev (dropWhile (\<lambda>c. c \<noteq> CHR ''/'') (rev p))
      in if head \<noteq> [] \<and> \<not> list_all (\<lambda>c. c = CHR ''/'') head
         then rev (dropWhile (\<lambda>c. c = CHR ''/'') (rev head)) else head)"

definition list_os :: "((string \<times> real option model_data) list, real option) joblib_os" where
  "list_os =
     \<lparr>dirname = posix_dirname,
      makedirs = (\<lambda>fs d. if d = [] then Inl (''No such file or directory'', fs) else Inr fs),
      dump = (\<lambda>fs md p. Inr ((p, md) # fs)),
      path_exists = (\<lambda>fs p. map_of fs p \<noteq> None),
      load = (\<lambda>fs p. case map_of fs p of None \<Rightarrow> Inl ''cannot read'' | Some md \<Rightarrow> Inr md)\<rparr>"

text \<open>Records in the paired format, as the application builds them.\<close>

definition paired :: "int \<Rightarrow> int \<Rightarrow> int \<Rightarrow> string \<Rightarrow> real \<Rightarrow> real \<Rightarrow> txn" where
  "paired y m d cat e i =
     \<lparr>date = \<lparr>year = y, month = m, day = d\<rparr>, category = cat, amount = None,
      total_expense = Some e, total_income = Some i,
      transaction_type = Some (if 0 < e then ''expense'' else ''income'')\<rparr>"

definition food_data :: "txn list" where
  "food_data = map (\<lambda>d. paired 2024 3 d ''Food'' 500 0) [1..10]"

definition rent_data :: "txn list" where
  "rent_data = map (\<lambda>d. paired 2024 4 d ''Rent'' 900 0) [1..10]"

definition split_example :: "txn list" where
  "split_example = [paired 2024 3 1 ''Salary'' 0 50000, paired 2024 3 2 ''Food'' 500 0]"

definition today :: date where
  "today = \<lparr>year = 2024, month = 12, day = 15\<rparr>"

text \<open>A forecaster trained once on \<open>food_data\<close>.\<close>

definition food_forecaster :: "real option ExpensePredictor" where
  "food_forecaster = snd (train mean_lib (init mean_lib) food_data)"

text \<open>
  A library whose estimator predicts, for each row, the value of its first column, the
  month; a forecaster trained with it; and a clock that reads 30 November at its first
  reading and 1 December from then on.
\<close>

definition month_lib :: "real option sklearn" where
  "month_lib = mean_lib\<lparr>predict := (\<lambda>m X. Inr (map (\<lambda>x. case x of [] \<Rightarrow> 0 | v # _ \<Rightarrow> v) X))\<rparr>"

definition month_forecaster :: "real option ExpensePredictor" where
  "month_forecaster = snd (train month_lib (init month_lib) food_data)"

definition boundary_clock :: clock where
  "boundary_clock n =
     (if n = 0 then \<lparr>year = 2024, month = 11, day = 30\<rparr> else \<lparr>year = 2024, month = 12, day = 1\<rparr>)"

section \<open>Properties\<close>

subsection \<open>Feature rows and the fitted branch of the encoder\<close>


lemma select_feature_vector:
  "select_columns (feature_columns (init L)) (feature_row d a code) = Some (feature_vector d code)"
  by (simp add: select_columns_def init_def feature_row_def feature_vector_def)


lemma create_features_fitted:
  assumes "is_fitted self" and "category_encoder self = Some classes"
  shows "create_features self df =
           Inr (map (\<lambda>r. feature_row (date r) (amount r)
                     (if category r \<in> set classes then index_of classes (category r) else - 1)) df,
                self)"
  using assms by (simp add: create_features_def)


lemma predict_category_ignores_direction:
  "predict_category L self now_month now cat ttype target_month =
   predict_category L self now_month now cat ttype' target_month"
  by (simp add: predict_category_def create_features_def feature_row_def
        split: option.splits)

lemma food_forecaster_state:
  "is_fitted food_forecaster" "category_encoder food_forecaster = Some [''Food'']"
  "feature_columns food_forecaster = feature_columns (init mean_lib)"
  "model food_forecaster = Some 500"
  by code_simp+


subsection \<open>The untrained forecaster\<close>

text \<open>
  Claim C5. A forecaster as constructed, before any training: \<open>predict_category\<close> returns
  \<open>(0, 0)\<close> for every category, direction and target month, \<open>predict_next_month\<close> returns
  the empty list for every list of categories, and \<open>save_model\<close> returns the failure
  \<open>Model not trained yet\<close> and writes nothing.
\<close>

theorem untrained_guard:
  "predict_category L (init L) now_month now cat ttype target_month = (0, 0)
   \<and> predict_next_month L (init L) clock categories = []
   \<and> save_model OS fs (init L) filepath = ((False, Model_not_trained), fs)"
  by (simp add: predict_category_def predict_next_month_def save_model_def init_def)

theorem untrained_guard_witness:
  "predict_category mean_lib (init mean_lib) today today ''Food'' ''expense'' (Some 1) = (0, 0)
   \<and> predict_next_month mean_lib (init mean_lib) (\<lambda>n. today) [''Food'', ''Salary''] = []
   \<and> save_model list_os [] (init mean_lib) ''model/expense_predictor.joblib''
       = ((False, Model_not_trained), [])"
  by (rule untrained_guard)

subsection \<open>Unknown categories\<close>

text \<open>
  Claim C6. For a category that is not in the vocabulary, \<open>predict_category\<close> returns
  \<open>(0, 0)\<close>, whatever the direction and the target month. The model has no exception
  in the result type of \<open>predict_category\<close>: the method returns a pair on every path. The
  statement holds for every forecaster, so in particular for every trained one.
\<close>

theorem unknown_category:
  assumes "cat \<notin> vocabulary self"
  shows "predict_category L self now_month now cat ttype target_month = (0, 0)"
  using assms by (simp add: predict_category_def vocabulary_def split: option.splits)

theorem unknown_category_witness:
  "is_fitted food_forecaster
   \<and> ''NeverSeenCategory'' \<notin> vocabulary food_forecaster
   \<and> predict_category mean_lib food_forecaster today today ''NeverSeenCategory'' ''expense'' None = (0, 0)"
proof -
  have h: "''NeverSeenCategory'' \<notin> vocabulary food_forecaster"
    by (simp add: vocabulary_def food_forecaster_state)
  from h unknown_category [OF h] food_forecaster_state(1) show ?thesis by simp
qed

subsection \<open>Bounds on a prediction\<close>





subsection \<open>The forecast for the next month\<close>

lemma predict_loop_sites:
  "predict_loop L self (\<lambda>n. clock (n + 2 * k)) target cats acc =
     acc @ concat (map (\<lambda>(i, c). predict_one L self (clock (2 * i)) (clock (2 * i + 1)) target c)
                    (enumerate k cats))"
proof (induction cats arbitrary: k acc)
  case Nil
  show ?case by simp
next
  case (Cons c cats)
  have "(\<lambda>n. clock (n + 2 + 2 * k)) = (\<lambda>n. clock (n + 2 * Suc k))"
    by (simp add: add.assoc)
  with Cons [of "Suc k"] show ?case by simp
qed

lemma predict_next_month_sites:
  assumes "is_fitted self"
  shows "predict_next_month L self clock cats =
           concat (map (\<lambda>(i, c). predict_one L self (clock (2 * i)) (clock (2 * i + 1))
                                   (next_month (clock 0) (clock 1)) c)
                    (enumerate 1 cats))"
  using assms predict_loop_sites [of L self clock 1 _ cats "[]"]
  by (simp add: predict_next_month_def)

lemma predict_one_entry:
  assumes "p \<in> set (predict_one L self now_expense now_income target c)"
  shows "p_category p = c
    \<and> (predicted_expense p, expense_confidence p) =
        predict_category L self now_expense now_expense c ''expense'' (Some target)
    \<and> (predicted_income p, income_confidence p) =
        predict_category L self now_income now_income c ''income'' (Some target)
    \<and> (0 < predicted_expense p \<or> 0 < predicted_income p)
    \<and> p_transaction_type p =
        (if predicted_income p < predicted_expense p then ''expense'' else ''income'')"
  using assms by (auto simp: predict_one_def split: prod.splits if_splits)

lemma predict_one_category:
  "map p_category (predict_one L self now_expense now_income target c) =
     (if 0 < fst (predict_category L self now_expense now_expense c ''expense'' (Some target))
        \<or> 0 < fst (predict_category L self now_income now_income c ''income'' (Some target))
      then [c] else [])"
  by (simp add: predict_one_def split: prod.splits)

text \<open>
  What \<open>predict_next_month\<close> returns, at any readings of the clock. Every entry belongs
  to one of the input categories, carries the two results of \<open>predict_category\<close> for that
  category at the target month and at the readings of its two calls, has a positive
  predicted expense or a positive predicted income, and is tagged \<open>expense\<close> when the
  predicted expense is the larger amount and \<open>income\<close> otherwise.
\<close>

lemma predict_next_month_entries:
  assumes "p \<in> set (predict_next_month L self clock cats)"
  shows "\<exists>i < length cats.
           p_category p = cats ! i
           \<and> (predicted_expense p, expense_confidence p) =
               predict_category L self (clock (2 + 2 * i)) (clock (2 + 2 * i)) (cats ! i) ''expense''
                 (Some (next_month (clock 0) (clock 1)))
           \<and> (predicted_income p, income_confidence p) =
               predict_category L self (clock (3 + 2 * i)) (clock (3 + 2 * i)) (cats ! i) ''income''
                 (Some (next_month (clock 0) (clock 1)))
           \<and> (0 < predicted_expense p \<or> 0 < predicted_income p)
           \<and> p_transaction_type p =
               (if predicted_income p < predicted_expense p then ''expense'' else ''income'')"
proof -
  have f: "is_fitted self"
    using assms by (auto simp: predict_next_month_def split: if_splits)
  from assms obtain j c where jc: "(j, c) \<in> set (enumerate 1 cats)"
      and p: "p \<in> set (predict_one L self (clock (2 * j)) (clock (2 * j + 1))
                          (next_month (clock 0) (clock 1)) c)"
    unfolding predict_next_month_sites [OF f] by auto
  from jc have j: "1 \<le> j" "j < length cats + 1" "c = cats ! (j - 1)"
    by (auto simp: in_set_enumerate_eq)
  define i where "i = j - 1"
  with j have i: "i < length cats" "c = cats ! i" "2 * j = 2 + 2 * i" "2 * j + 1 = 3 + 2 * i"
    by simp_all
  have "p_category p = cats ! i
           \<and> (predicted_expense p, expense_confidence p) =
               predict_category L self (clock (2 + 2 * i)) (clock (2 + 2 * i)) (cats ! i) ''expense''
                 (Some (next_month (clock 0) (clock 1)))
           \<and> (predicted_income p, income_confidence p) =
               predict_category L self (clock (3 + 2 * i)) (clock (3 + 2 * i)) (cats ! i) ''income''
                 (Some (next_month (clock 0) (clock 1)))
           \<and> (0 < predicted_expense p \<or> 0 < predicted_income p)
           \<and> p_transaction_type p =
               (if predicted_income p < predicted_expense p then ''expense'' else ''income'')"
    using predict_one_entry [OF p] i(2,3,4) by (simp add: numeral_3_eq_3)
  with i(1) show ?thesis by blast
qed

text \<open>
  The target month when the two readings of line 183 fall in the same month: the month
  after it, and 1 after December.
\<close>

lemma next_month_same_month:
  assumes "month now_cond = month now_value"
  shows "next_month now_cond now_value = (if month now_cond < 12 then month now_cond + 1 else 1)"
    and "next_month now_cond now_value \<noteq> 13"
  using assms by (simp_all add: next_month_def)

text \<open>
  Claim C10 at a month boundary. The condition of line 183 reads the clock on 30 November
  and its value reads it on 1 December: the target month is 13, not 1, and the forecast
  for Food is made for month 13 (the estimator of \<open>month_lib\<close> returns the month it is
  asked about).
\<close>

theorem target_month_thirteen:
  "month (boundary_clock 0) = 11
   \<and> month (boundary_clock 1) = 12
   \<and> next_month (boundary_clock 0) (boundary_clock 1) = 13
   \<and> is_fitted month_forecaster
   \<and> map predicted_expense (predict_next_month month_lib month_forecaster boundary_clock [''Food''])
       = [13]"
  by code_simp

subsection \<open>Preparation of the data\<close>

lemma those_map_Some:
  "(\<And>x. x \<in> set xs \<Longrightarrow> f x = Some (g x)) \<Longrightarrow> those (map f xs) = Some (map g xs)"
  by (induction xs) simp_all

lemma those_length: "those xs = Some ys \<Longrightarrow> length ys = length xs"
  by (induction xs arbitrary: ys) (auto split: option.splits)

lemma normalized_positive:
  assumes "normalized data = Some df"
  shows "df \<noteq> [] \<and> (\<forall>r\<in>set df. positive (amount r))"
  using assms by (auto simp: normalized_def Let_def split: if_splits option.splits)

lemma usable_rows_Some: "normalized data = Some df \<Longrightarrow> usable_rows data = length df \<and> 0 < length df"
  using normalized_positive [of data df] by (simp add: usable_rows_def)

lemma usable_rows_None: "normalized data = None \<Longrightarrow> usable_rows data = 0"
  by (simp add: usable_rows_def)

lemma usable_rows_pos: "0 < usable_rows data \<Longrightarrow> \<exists>df. normalized data = Some df \<and> length df = usable_rows data"
  by (cases "normalized data") (simp_all add: usable_rows_def)

lemma prepare_data_none:
  "normalized data = None \<Longrightarrow> prepare_data self data = (Inr None, self)"
  by (simp add: prepare_data_def)

lemma prepare_data_unfitted:
  assumes "\<not> is_fitted self" and "feature_columns self = feature_columns (init L)"
    and "normalized data = Some df"
  shows "prepare_data self data =
           (Inr (Some (map (\<lambda>r. feature_vector (date r)
                             (index_of (fit_classes (map category df)) (category r))) df,
                       map amount_of df)),
            self\<lparr>category_encoder := Some (fit_classes (map category df))\<rparr>)"
proof -
  have "those (map (select_columns (feature_columns (init L)))
          (map (\<lambda>r. feature_row (date r) (amount r)
                  (index_of (fit_classes (map category df)) (category r))) df))
        = Some (map (\<lambda>r. feature_vector (date r)
                      (index_of (fit_classes (map category df)) (category r))) df)"
    unfolding map_map by (rule those_map_Some) (simp add: select_feature_vector)
  then show ?thesis
    using assms by (simp add: prepare_data_def create_features_def Let_def)
qed

lemma prepare_data_fitted:
  assumes "is_fitted self" and "category_encoder self = Some classes"
    and "feature_columns self = feature_columns (init L)"
    and "normalized data = Some df"
  shows "prepare_data self data =
           (Inr (Some (map (\<lambda>r. feature_vector (date r)
                             (if category r \<in> set classes then index_of classes (category r)
                              else - 1)) df,
                       map amount_of df)),
            self)"
proof -
  have "those (map (select_columns (feature_columns (init L)))
          (map (\<lambda>r. feature_row (date r) (amount r)
                  (if category r \<in> set classes then index_of classes (category r) else - 1)) df))
        = Some (map (\<lambda>r. feature_vector (date r)
                  (if category r \<in> set classes then index_of classes (category r) else - 1)) df)"
    unfolding map_map by (rule those_map_Some) (simp add: select_feature_vector)
  then show ?thesis
    using assms by (simp add: prepare_data_def create_features_fitted)
qed

lemma prepare_data_state:
  assumes "prepare_data self data = (res, self1)"
  shows "model self1 = model self \<and> is_fitted self1 = is_fitted self
         \<and> feature_columns self1 = feature_columns self
         \<and> (is_fitted self \<longrightarrow> self1 = self)
         \<and> (normalized data = None \<longrightarrow> self1 = self)
         \<and> (\<forall>df. \<not> is_fitted self \<and> normalized data = Some df \<longrightarrow>
               self1 = self\<lparr>category_encoder := Some (fit_classes (map category df))\<rparr>)"
  using assms
  by (auto simp: prepare_data_def create_features_def Let_def
           split: option.splits sum.splits prod.splits if_splits)

lemma prepare_data_rows:
  assumes "prepare_data self data = (Inr (Some (X, y)), self1)"
  shows "\<exists>df. normalized data = Some df \<and> length X = length df \<and> y = map amount_of df"
  using assms
  by (auto simp: prepare_data_def create_features_def Let_def
           split: option.splits sum.splits prod.splits if_splits dest!: those_length)

lemma expense_rows_kept:
  "filter (\<lambda>r. positive (amount r)) (map expense_row (filter (\<lambda>r. positive (total_expense r)) data))
     = map expense_row (filter (\<lambda>r. positive (total_expense r)) data)"
  by (induction data) (simp_all add: expense_row_def)

lemma income_rows_kept:
  "filter (\<lambda>r. positive (amount r)) (map income_row (filter (\<lambda>r. positive (total_income r)) data))
     = map income_row (filter (\<lambda>r. positive (total_income r)) data)"
  by (induction data) (simp_all add: income_row_def)

lemma has_amount_iff: "has_amount df \<longleftrightarrow> (\<exists>r\<in>set df. amount r \<noteq> None)"
  by (simp add: has_amount_def list_ex_iff)

lemma positive_Some: "positive a \<Longrightarrow> a \<noteq> None"
  by (cases a) simp_all

lemma kept_rows_have_amount:
  assumes "filter (\<lambda>r. positive (amount r)) df = df" and "df \<noteq> []"
  shows "has_amount df"
proof -
  from assms(2) obtain r where r: "r \<in> set df" by (cases df) auto
  with assms(1) have "positive (amount r)" by (metis filter_id_conv)
  then have "amount r \<noteq> None" by (rule positive_Some)
  with r show ?thesis unfolding has_amount_iff by blast
qed

lemma normalized_paired:
  assumes "has_total_expense data" and "has_total_income data"
  shows "normalized data =
           (if filter (\<lambda>r. positive (total_expense r)) data = []
               \<and> filter (\<lambda>r. positive (total_income r)) data = [] then None
            else Some (map expense_row (filter (\<lambda>r. positive (total_expense r)) data)
                       @ map income_row (filter (\<lambda>r. positive (total_income r)) data)))"
proof -
  let ?E = "map expense_row (filter (\<lambda>r. positive (total_expense r)) data)"
  let ?I = "map income_row (filter (\<lambda>r. positive (total_income r)) data)"
  have ne: "data \<noteq> []" using assms(1) by (auto simp: has_total_expense_def)
  have k: "filter (\<lambda>r. positive (amount r)) (?E @ ?I) = ?E @ ?I"
    by (simp add: expense_rows_kept income_rows_kept)
  have h: "?E @ ?I \<noteq> [] \<Longrightarrow> has_amount (?E @ ?I)"
    by (rule kept_rows_have_amount [OF k])
  show ?thesis
  proof (cases "?E @ ?I = []")
    case True
    then show ?thesis using ne assms by (simp add: normalized_def)
  next
    case False
    then show ?thesis using ne assms h k
      by (auto simp: normalized_def Let_def)
  qed
qed

lemma normalized_split_example:
  "normalized split_example =
     Some [\<lparr>date = \<lparr>year = 2024, month = 3, day = 2\<rparr>, category = ''Food'',
             amount = Some 500, total_expense = None, total_income = None,
             transaction_type = Some ''expense''\<rparr>,
           \<lparr>date = \<lparr>year = 2024, month = 3, day = 1\<rparr>, category = ''Salary'',
             amount = Some 50000, total_expense = None, total_income = None,
             transaction_type = Some ''income''\<rparr>]"
  by (simp add: normalized_def split_example_def paired_def has_total_expense_def
        has_total_income_def has_amount_def expense_row_def income_row_def)

text \<open>
  Claim C7. On input in the paired format (the frame has both a \<open>total_expense\<close> and a
  \<open>total_income\<close> column) the prepared frame is the expense side of every record with a
  positive expense total, followed by the income side of every record with a positive income
  total, and nothing else; a side whose total is not positive is dropped, and there is no
  frame at all when every side is. So a record with both totals positive appears twice,
  once per direction, and every prepared row has a positive amount. On the two records
  (2024-03-01, Salary, expense 0, income 50000) and (2024-03-02, Food, expense 500, income 0)
  the prepared frame has exactly the two rows (Food, 500, expense) and (Salary, 50000,
  income), and \<open>prepare_data\<close> returns a feature matrix of two rows with the targets
  500 and 50000.
\<close>

theorem prepare_splits_paired_records:
  assumes "has_total_expense data" and "has_total_income data"
  shows "normalized data =
           (if filter (\<lambda>r. positive (total_expense r)) data = []
               \<and> filter (\<lambda>r. positive (total_income r)) data = [] then None
            else Some (map expense_row (filter (\<lambda>r. positive (total_expense r)) data)
                       @ map income_row (filter (\<lambda>r. positive (total_income r)) data)))
         \<and> (\<forall>df. normalized data = Some df \<longrightarrow>
               (\<forall>r\<in>set df. positive (amount r))
               \<and> (\<forall>r\<in>set data. positive (total_expense r) \<and> positive (total_income r) \<longrightarrow>
                     expense_row r \<in> set df \<and> income_row r \<in> set df))
         \<and> normalized split_example =
               Some [\<lparr>date = \<lparr>year = 2024, month = 3, day = 2\<rparr>, category = ''Food'',
                       amount = Some 500, total_expense = None, total_income = None,
                       transaction_type = Some ''expense''\<rparr>,
                     \<lparr>date = \<lparr>year = 2024, month = 3, day = 1\<rparr>, category = ''Salary'',
                       amount = Some 50000, total_expense = None, total_income = None,
                       transaction_type = Some ''income''\<rparr>]
         \<and> (\<exists>X. fst (prepare_data (init L) split_example) = Inr (Some (X, [500, 50000]))
                  \<and> length X = 2)"
proof -
  note n = normalized_paired [OF assms]
  have a: "(\<forall>r\<in>set df. positive (amount r))
           \<and> (\<forall>r\<in>set data. positive (total_expense r) \<and> positive (total_income r) \<longrightarrow>
                     expense_row r \<in> set df \<and> income_row r \<in> set df)"
    if "normalized data = Some df" for df
  proof -
    have "\<forall>r\<in>set df. positive (amount r)" using normalized_positive [OF that] by simp
    moreover have "df = map expense_row (filter (\<lambda>r. positive (total_expense r)) data)
                       @ map income_row (filter (\<lambda>r. positive (total_income r)) data)"
      using that n by (simp split: if_splits)
    ultimately show ?thesis by auto
  qed
  have i: "\<not> is_fitted (init L)" by (simp add: init_def)
  have p: "\<exists>X. fst (prepare_data (init L) split_example) = Inr (Some (X, [500, 50000]))
                  \<and> length X = 2"
    by (simp add: prepare_data_unfitted [OF i refl normalized_split_example] amount_of_def)
  from n a normalized_split_example p show ?thesis by blast
qed

theorem prepare_splits_paired_records_witness:
  "has_total_expense [paired 2024 3 5 ''Shop'' 200 300]
   \<and> has_total_income [paired 2024 3 5 ''Shop'' 200 300]
   \<and> normalized [paired 2024 3 5 ''Shop'' 200 300] =
       Some [\<lparr>date = \<lparr>year = 2024, month = 3, day = 5\<rparr>, category = ''Shop'',
               amount = Some 200, total_expense = None, total_income = None,
               transaction_type = Some ''expense''\<rparr>,
             \<lparr>date = \<lparr>year = 2024, month = 3, day = 5\<rparr>, category = ''Shop'',
               amount = Some 300, total_expense = None, total_income = None,
               transaction_type = Some ''income''\<rparr>]"
proof -
  have e: "has_total_expense [paired 2024 3 5 ''Shop'' 200 300]"
    by (simp add: has_total_expense_def paired_def)
  have i: "has_total_income [paired 2024 3 5 ''Shop'' 200 300]"
    by (simp add: has_total_income_def paired_def)
  from prepare_splits_paired_records [OF e i]
  have "normalized [paired 2024 3 5 ''Shop'' 200 300] =
           (if filter (\<lambda>r. positive (total_expense r)) [paired 2024 3 5 ''Shop'' 200 300] = []
               \<and> filter (\<lambda>r. positive (total_income r)) [paired 2024 3 5 ''Shop'' 200 300] = []
            then None
            else Some (map expense_row
                         (filter (\<lambda>r. positive (total_expense r)) [paired 2024 3 5 ''Shop'' 200 300])
                       @ map income_row
                         (filter (\<lambda>r. positive (total_income r)) [paired 2024 3 5 ''Shop'' 200 300])))"
    by (rule conjunct1)
  then have "normalized [paired 2024 3 5 ''Shop'' 200 300] =
       Some [\<lparr>date = \<lparr>year = 2024, month = 3, day = 5\<rparr>, category = ''Shop'',
               amount = Some 200, total_expense = None, total_income = None,
               transaction_type = Some ''expense''\<rparr>,
             \<lparr>date = \<lparr>year = 2024, month = 3, day = 5\<rparr>, category = ''Shop'',
               amount = Some 300, total_expense = None, total_income = None,
               transaction_type = Some ''income''\<rparr>]"
    by (simp add: paired_def expense_row_def income_row_def)
  with e i show ?thesis by blast
qed

subsection \<open>Training\<close>

lemma train_no_rows:
  assumes "prepare_data self data = (Inr None, self1)"
  shows "train L self data = (Inr (False, No_valid_data), self1)"
  using assms by (simp add: train_def)

lemma train_few_rows:
  assumes "prepare_data self data = (Inr (Some (X, y)), self1)" and "length X < 10"
  shows "train L self data = (Inr (False, Insufficient_data), self1)"
  using assms by (simp add: train_def)

lemma train_fit_ok:
  assumes "prepare_data self data = (Inr (Some (X, y)), self1)" and "10 \<le> length X"
    and "train_test_split L X y = (X_train, X_test, y_train, y_test)"
    and "fit L (model self1) X_train y_train = Inr m"
    and "predict L m X_test = Inr y_pred"
  shows "train L self data =
           (Inr (True, Model_trained (mean_absolute_error L y_test y_pred)
                                     (r2_score L y_test y_pred)),
            self1\<lparr>model := m, is_fitted := True\<rparr>)"
  using assms by (simp add: train_def)

lemma train_fit_fault:
  assumes "prepare_data self data = (Inr (Some (X, y)), self1)" and "10 \<le> length X"
    and "train_test_split L X y = (X_train, X_test, y_train, y_test)"
    and "fit L (model self1) X_train y_train = Inl (e, m)"
  shows "train L self data = (Inr (False, Training_failed e), self1\<lparr>model := m\<rparr>)"
  using assms by (simp add: train_def)

lemma prepare_data_completes:
  assumes "feature_columns self = feature_columns (init L)"
    and "is_fitted self \<longrightarrow> category_encoder self \<noteq> None"
  shows "\<exists>r self1. prepare_data self data = (Inr r, self1)
           \<and> (r = None \<longrightarrow> usable_rows data = 0)
           \<and> (\<forall>X y. r = Some (X, y) \<longrightarrow> length X = usable_rows data \<and> 0 < usable_rows data)"
proof (cases "normalized data")
  case None
  then show ?thesis by (simp add: prepare_data_none usable_rows_None)
next
  case (Some df)
  show ?thesis
  proof (cases "is_fitted self")
    case True
    with assms(2) obtain classes where "category_encoder self = Some classes" by auto
    from prepare_data_fitted [OF True this assms(1) Some] usable_rows_Some [OF Some]
    show ?thesis by simp
  next
    case False
    from prepare_data_unfitted [OF False assms(1) Some] usable_rows_Some [OF Some]
    show ?thesis by simp
  qed
qed

lemma train_feature_columns:
  "feature_columns (snd (train L self data)) = feature_columns self"
proof -
  obtain res self1 where p: "prepare_data self data = (res, self1)"
    by (cases "prepare_data self data")
  from prepare_data_state [OF p] have "feature_columns self1 = feature_columns self" by simp
  with p show ?thesis
    by (auto simp: train_def Let_def split: sum.splits option.splits prod.splits)
qed

lemma usable_rows_examples:
  "usable_rows [] = 0" "usable_rows (take 9 food_data) = 9" "usable_rows food_data = 10"
  "usable_rows rent_data = 10"
  by code_simp+

lemma minimum_data_gate_cases:
  assumes "feature_columns self = feature_columns (init L)"
    and "is_fitted self \<longrightarrow> category_encoder self \<noteq> None"
  shows "(usable_rows data = 0 \<longrightarrow> fst (train L self data) = Inr (False, No_valid_data))
    \<and> (0 < usable_rows data \<and> usable_rows data < 10 \<longrightarrow>
         fst (train L self data) = Inr (False, Insufficient_data))
    \<and> (10 \<le> usable_rows data \<longrightarrow>
         (\<exists>X y. fst (prepare_data self data) = Inr (Some (X, y)) \<and> length X = usable_rows data
            \<and> (\<forall>X_train X_test y_train y_test m y_pred.
                  train_test_split L X y = (X_train, X_test, y_train, y_test)
                  \<and> fit L (model self) X_train y_train = Inr m
                  \<and> predict L m X_test = Inr y_pred \<longrightarrow>
                  fst (train L self data) =
                    Inr (True, Model_trained (mean_absolute_error L y_test y_pred)
                                             (r2_score L y_test y_pred)))))"
proof -
  from prepare_data_completes [OF assms, of data] obtain r self1
    where p: "prepare_data self data = (Inr r, self1)"
      and r0: "r = None \<longrightarrow> usable_rows data = 0"
      and r1: "\<forall>X y. r = Some (X, y) \<longrightarrow> length X = usable_rows data \<and> 0 < usable_rows data"
    by blast
  have m: "model self1 = model self" using prepare_data_state [OF p] by simp
  show ?thesis
  proof (cases r)
    case None
    with p r0 show ?thesis by (simp add: train_no_rows)
  next
    case (Some Xy)
    obtain X y where Xy: "Xy = (X, y)" by (cases Xy)
    with Some p have p': "prepare_data self data = (Inr (Some (X, y)), self1)" by simp
    from r1 Some Xy have len: "length X = usable_rows data" "0 < usable_rows data" by simp_all
    have a: "usable_rows data < 10 \<longrightarrow> fst (train L self data) = Inr (False, Insufficient_data)"
      using train_few_rows [OF p'] len by simp
    have b: "fst (train L self data) =
                    Inr (True, Model_trained (mean_absolute_error L y_test y_pred)
                                             (r2_score L y_test y_pred))"
      if "10 \<le> usable_rows data" "train_test_split L X y = (X_train, X_test, y_train, y_test)"
        "fit L (model self) X_train y_train = Inr m" "predict L m X_test = Inr y_pred"
      for X_train X_test y_train y_test m y_pred
      using train_fit_ok [OF p' _ that(2) _ that(4)] that(1,3) len m by simp
    from a b len p' show ?thesis by auto
  qed
qed

text \<open>
  Claim C3. For a forecaster with the feature columns it was constructed with, and every
  input: when fewer than 10 usable rows remain after preparation \<open>train\<close> returns a
  failure for too little data, which is the status
  \<open>Insufficient data for training (minimum 10 samples required)\<close> when one to nine rows
  remain and \<open>No valid data for training\<close> when none does; when 10 rows remain (or
  more) the gate is passed, preparation has returned a feature matrix with that many rows,
  and \<open>train\<close> returns success with the two metrics whenever the library's \<open>fit\<close> and
  \<open>predict\<close> return.
\<close>

theorem minimum_data_gate:
  assumes "feature_columns self = feature_columns (init L)"
    and "is_fitted self \<longrightarrow> category_encoder self \<noteq> None"
  shows "(usable_rows data < 10 \<longrightarrow>
           fst (train L self data) =
             Inr (False, if usable_rows data = 0 then No_valid_data else Insufficient_data))
    \<and> (usable_rows data = 0 \<longrightarrow> fst (train L self data) = Inr (False, No_valid_data))
    \<and> (0 < usable_rows data \<and> usable_rows data < 10 \<longrightarrow>
         fst (train L self data) = Inr (False, Insufficient_data))
    \<and> (10 \<le> usable_rows data \<longrightarrow>
         (\<exists>X y. fst (prepare_data self data) = Inr (Some (X, y)) \<and> length X = usable_rows data
            \<and> (\<forall>X_train X_test y_train y_test m y_pred.
                  train_test_split L X y = (X_train, X_test, y_train, y_test)
                  \<and> fit L (model self) X_train y_train = Inr m
                  \<and> predict L m X_test = Inr y_pred \<longrightarrow>
                  fst (train L self data) =
                    Inr (True, Model_trained (mean_absolute_error L y_test y_pred)
                                             (r2_score L y_test y_pred)))))"
proof -
  note c = minimum_data_gate_cases [OF assms, of data]
  have "usable_rows data < 10 \<longrightarrow>
           fst (train L self data) =
             Inr (False, if usable_rows data = 0 then No_valid_data else Insufficient_data)"
    using c by (cases "usable_rows data = 0") simp_all
  with c show ?thesis by blast
qed

theorem minimum_data_gate_witness:
  "usable_rows [] = 0
   \<and> fst (train mean_lib (init mean_lib) []) = Inr (False, No_valid_data)
   \<and> usable_rows (take 9 food_data) = 9
   \<and> fst (train mean_lib (init mean_lib) (take 9 food_data)) = Inr (False, Insufficient_data)
   \<and> usable_rows food_data = 10
   \<and> (\<exists>mae r2. fst (train mean_lib (init mean_lib) food_data) = Inr (True, Model_trained mae r2))"
proof -
  have i: "is_fitted (init mean_lib) \<longrightarrow> category_encoder (init mean_lib) \<noteq> None"
    by (simp add: init_def)
  note g = minimum_data_gate [of "init mean_lib" mean_lib, OF refl i]
  have a: "fst (train mean_lib (init mean_lib) []) = Inr (False, No_valid_data)"
    using g [of "[]"] usable_rows_examples(1) by blast
  have b: "fst (train mean_lib (init mean_lib) (take 9 food_data)) = Inr (False, Insufficient_data)"
    using g [of "take 9 food_data"] usable_rows_examples(2) by simp
  from g [of food_data] usable_rows_examples(3) obtain X y
    where c: "\<forall>X_train X_test y_train y_test m y_pred.
                  train_test_split mean_lib X y = (X_train, X_test, y_train, y_test)
                  \<and> fit mean_lib (model (init mean_lib)) X_train y_train = Inr m
                  \<and> predict mean_lib m X_test = Inr y_pred \<longrightarrow>
                  fst (train mean_lib (init mean_lib) food_data) =
                    Inr (True, Model_trained (mean_absolute_error mean_lib y_test y_pred)
                                             (r2_score mean_lib y_test y_pred))"
    by auto
  obtain X_train X_test y_train y_test
    where s: "train_test_split mean_lib X y = (X_train, X_test, y_train, y_test)"
    by (cases "train_test_split mean_lib X y") auto
  have f: "fit mean_lib (model (init mean_lib)) X_train y_train = Inr (Some (np_mean y_train))"
    by (simp add: mean_lib_def)
  have p: "predict mean_lib (Some (np_mean y_train)) X_test = Inr (map (\<lambda>_. np_mean y_train) X_test)"
    by (simp add: mean_lib_def)
  from c s f p have "fst (train mean_lib (init mean_lib) food_data) =
      Inr (True, Model_trained
             (mean_absolute_error mean_lib y_test (map (\<lambda>_. np_mean y_train) X_test))
             (r2_score mean_lib y_test (map (\<lambda>_. np_mean y_train) X_test)))"
    by blast
  then have d: "\<exists>mae r2. fst (train mean_lib (init mean_lib) food_data) = Inr (True, Model_trained mae r2)"
    by blast
  from a b d usable_rows_examples show ?thesis by blast
qed

text \<open>
  The first training fits the encoder on the categories of the prepared frame, whatever
  becomes of the fit.
\<close>

lemma first_train_vocabulary:
  assumes "\<not> is_fitted self" and "normalized data = Some df"
  shows "category_encoder (snd (train L self data)) = Some (fit_classes (map category df))"
proof -
  obtain res self1 where p: "prepare_data self data = (res, self1)"
    by (cases "prepare_data self data")
  from prepare_data_state [OF p] assms
  have "self1 = self\<lparr>category_encoder := Some (fit_classes (map category df))\<rparr>" by simp
  with p show ?thesis
    by (auto simp: train_def Let_def split: sum.splits option.splits prod.splits)
qed

text \<open>
  A fitted forecaster keeps its encoder through every call of \<open>train\<close>: the frame is
  encoded in the branch of \<open>create_features\<close> that serves prediction.
\<close>

lemma retrain_vocabulary_unchanged:
  assumes "is_fitted self"
  shows "category_encoder (snd (train L self data)) = category_encoder self"
proof -
  obtain res self1 where p: "prepare_data self data = (res, self1)"
    by (cases "prepare_data self data")
  from prepare_data_state [OF p] assms have "self1 = self" by simp
  with p show ?thesis
    by (auto simp: train_def Let_def split: sum.splits option.splits prod.splits)
qed

text \<open>
  Claim C2, as the code has it. When the fit raises, \<open>train\<close> returns the failure
  \<open>Training failed\<close> with the message of the fault; the fitted flag and the feature
  columns are what they were, and the estimator is the object as the raising fit left it.
  On a fitted forecaster the encoder is unchanged too, so when the fit left the estimator
  as it found it the forecaster is the one before the call and predicts as before. On a
  forecaster that is not fitted the encoder has already been fitted on the categories of
  the prepared frame.
\<close>

theorem fit_fault_state:
  assumes "prepare_data self data = (Inr (Some (X, y)), self1)" and "10 \<le> length X"
    and "train_test_split L X y = (X_train, X_test, y_train, y_test)"
    and "fit L (model self) X_train y_train = Inl (e, m)"
  shows "fst (train L self data) = Inr (False, Training_failed e)
    \<and> is_fitted (snd (train L self data)) = is_fitted self
    \<and> feature_columns (snd (train L self data)) = feature_columns self
    \<and> model (snd (train L self data)) = m
    \<and> (is_fitted self \<longrightarrow> category_encoder (snd (train L self data)) = category_encoder self)
    \<and> (is_fitted self \<and> m = model self \<longrightarrow>
         snd (train L self data) = self
         \<and> (\<forall>now_month now cat ttype target_month.
               predict_category L (snd (train L self data)) now_month now cat ttype target_month =
               predict_category L self now_month now cat ttype target_month))
    \<and> (\<not> is_fitted self \<longrightarrow>
         (\<exists>df. normalized data = Some df
            \<and> category_encoder (snd (train L self data)) = Some (fit_classes (map category df))))"
proof -
  note st = prepare_data_state [OF assms(1)]
  from st have m: "model self1 = model self" by simp
  have t: "train L self data = (Inr (False, Training_failed e), self1\<lparr>model := m\<rparr>)"
    using train_fit_fault [OF assms(1,2,3)] assms(4) m by simp
  from prepare_data_rows [OF assms(1)] obtain df where df: "normalized data = Some df" by blast
  have u: "\<not> is_fitted self \<longrightarrow> category_encoder (self1\<lparr>model := m\<rparr>) = Some (fit_classes (map category df))"
    using st df by auto
  have f: "is_fitted self \<and> m = model self \<longrightarrow> self1\<lparr>model := m\<rparr> = self"
    using st by auto
  from t st u f df show ?thesis by auto
qed

theorem fit_fault_state_witness:
  "is_fitted food_forecaster
   \<and> fst (train faulty_lib food_forecaster rent_data) = Inr (False, Training_failed ''fit raised'')
   \<and> snd (train faulty_lib food_forecaster rent_data) = food_forecaster
   \<and> predict_category faulty_lib (snd (train faulty_lib food_forecaster rent_data)) today today ''Food''
        ''expense'' None
      = predict_category faulty_lib food_forecaster today today ''Food'' ''expense'' None"
proof -
  from usable_rows_pos [of rent_data] usable_rows_examples(4)
  obtain df where df: "normalized rent_data = Some df" "length df = 10" by auto
  let ?X = "map (\<lambda>r. feature_vector (date r)
                     (if category r \<in> set [''Food''] then index_of [''Food''] (category r)
                      else - 1)) df"
  have p: "prepare_data food_forecaster rent_data = (Inr (Some (?X, map amount_of df)), food_forecaster)"
    by (rule prepare_data_fitted [OF food_forecaster_state(1,2,3) df(1)])
  have l: "10 \<le> length ?X" using df(2) by simp
  obtain X_train X_test y_train y_test
    where s: "train_test_split faulty_lib ?X (map amount_of df) = (X_train, X_test, y_train, y_test)"
    by (cases "train_test_split faulty_lib ?X (map amount_of df)") auto
  have f: "fit faulty_lib (model food_forecaster) X_train y_train
             = Inl (''fit raised'', model food_forecaster)"
    by (simp add: faulty_lib_def)
  from fit_fault_state [OF p l s f] food_forecaster_state(1) show ?thesis by simp
qed

text \<open>
  Claim C2 as stated fails on a forecaster that was never trained: the failed call leaves
  the estimator and the fitted flag alone and replaces the vocabulary.
\<close>

theorem failed_first_train_replaces_vocabulary:
  "fst (train faulty_lib (init faulty_lib) food_data) = Inr (False, Training_failed ''fit raised'')
   \<and> is_fitted (snd (train faulty_lib (init faulty_lib) food_data)) = False
   \<and> model (snd (train faulty_lib (init faulty_lib) food_data)) = model (init faulty_lib)
   \<and> category_encoder (init faulty_lib) = None
   \<and> category_encoder (snd (train faulty_lib (init faulty_lib) food_data)) = Some [''Food'']"
  by code_simp

text \<open>
  Claim C1 at a concrete retrain. A forecaster trained on ten Food records is trained again
  on ten Rent records. Both calls succeed and the second replaces the estimator, yet the
  vocabulary after it is still Food alone, not Rent, and a prediction for Rent is \<open>(0, 0)\<close>.
\<close>

theorem retrain_keeps_first_vocabulary:
  "fst (train mean_lib (init mean_lib) food_data) = Inr (True, Model_trained 0 0)
   \<and> fst (train mean_lib food_forecaster rent_data) = Inr (True, Model_trained 0 0)
   \<and> model (snd (train mean_lib food_forecaster rent_data)) = Some 900
   \<and> fit_classes (map category rent_data) = [''Rent'']
   \<and> category_encoder (snd (train mean_lib food_forecaster rent_data)) = Some [''Food'']
   \<and> predict_category mean_lib (snd (train mean_lib food_forecaster rent_data)) today today ''Rent''
        ''expense'' None = (0, 0)"
  by code_simp

subsection \<open>Persistence\<close>

text \<open>
  Claim C4. Over a file system that returns from a path what was last dumped there: when
  \<open>save_model\<close> succeeds, the forecaster was fitted, and \<open>load_model\<close> from the same path
  into any forecaster object succeeds and leaves that object equal to the saved one in
  estimator, vocabulary, feature columns and fitted flag; so \<open>predict_category\<close> returns
  the same pair as before for every category, direction and target month, at the same
  clock reading.
\<close>

theorem save_load_roundtrip:
  assumes "\<And>fs0 d p fs1. dump OS fs0 d p = Inr fs1 \<Longrightarrow> path_exists OS fs1 p \<and> load OS fs1 p = Inr d"
    and "fst (save_model OS fs self filepath) = (True, msg)"
  shows "is_fitted self
    \<and> load_model OS (snd (save_model OS fs self filepath)) other filepath
        = ((True, Model_loaded), self)
    \<and> (\<forall>now_month now cat ttype target_month.
          predict_category L (snd (load_model OS (snd (save_model OS fs self filepath)) other filepath))
            now_month now cat ttype target_month
          = predict_category L self now_month now cat ttype target_month)"
proof -
  let ?d = "\<lparr>model_entry = model self, category_encoder_entry = category_encoder self,
             feature_columns_entry = feature_columns self, is_fitted_entry = is_fitted self\<rparr>"
  from assms(2) have f: "is_fitted self"
    by (auto simp: save_model_def split: if_splits)
  from assms(2) f obtain fs1 where m: "makedirs OS fs (dirname OS filepath) = Inr fs1"
    by (auto simp: save_model_def split: sum.splits prod.splits)
  from assms(2) f m obtain fs2 where d: "dump OS fs1 ?d filepath = Inr fs2"
    by (auto simp: save_model_def split: sum.splits prod.splits)
  from f m d have s: "snd (save_model OS fs self filepath) = fs2"
    by (simp add: save_model_def)
  from assms(1) [OF d] have l: "path_exists OS fs2 filepath" "load OS fs2 filepath = Inr ?d"
    by simp_all
  have "load_model OS fs2 other filepath = ((True, Model_loaded), self)"
    using l by (simp add: load_model_def)
  with f s show ?thesis by simp
qed

theorem save_load_roundtrip_witness:
  "fst (save_model list_os [] food_forecaster ''model/expense_predictor.joblib'')
     = (True, Model_saved ''model/expense_predictor.joblib'')
   \<and> load_model list_os
        (snd (save_model list_os [] food_forecaster ''model/expense_predictor.joblib''))
        (init mean_lib) ''model/expense_predictor.joblib''
       = ((True, Model_loaded), food_forecaster)
   \<and> predict_category mean_lib
        (snd (load_model list_os
           (snd (save_model list_os [] food_forecaster ''model/expense_predictor.joblib''))
           (init mean_lib) ''model/expense_predictor.joblib''))
        today today ''Food'' ''expense'' None
       = predict_category mean_lib food_forecaster today today ''Food'' ''expense'' None"
proof -
  have c: "path_exists list_os fs1 p \<and> load list_os fs1 p = Inr d"
    if "dump list_os fs0 d p = Inr fs1" for fs0 d p fs1
    using that by (auto simp: list_os_def)
  have s: "fst (save_model list_os [] food_forecaster ''model/expense_predictor.joblib'')
     = (True, Model_saved ''model/expense_predictor.joblib'')"
    by code_simp
  from save_load_roundtrip [where other = "init mean_lib" and L = mean_lib, OF c s] s
  show ?thesis by simp
qed

end
